theory Spec2Isabelle
  imports Complex_Main "HOL-Library.Multiset"
begin

section \<open>Strings\<close>

text \<open>
  A Python \<open>str\<close> is modelled as the list of its code points, for text within
  Latin-1 (code points 0 to 255, one \<open>char\<close> each). The character classes below are
  the ones CPython uses on that range.
\<close>

definition is_space :: "char \<Rightarrow> bool" where
  \<comment> \<open>\<open>str.isspace\<close> on one character: what \<open>str.strip()\<close> removes.\<close>
  "is_space c =
     (let n = (of_char c :: nat)
      in (9 \<le> n \<and> n \<le> 13) \<or> (28 \<le> n \<and> n \<le> 32) \<or> n = 133 \<or> n = 160)"

definition lstrip :: "string \<Rightarrow> string" where
  "lstrip s = dropWhile is_space s"

definition rstrip :: "string \<Rightarrow> string" where
  "rstrip s = rev (dropWhile is_space (rev s))"

definition strip :: "string \<Rightarrow> string" where
  \<comment> \<open>\<open>s.strip()\<close>\<close>
  "strip s = rstrip (lstrip s)"

definition split_head :: "char \<Rightarrow> string \<Rightarrow> string" where
  \<comment> \<open>\<open>s.split(sep)[0]\<close> for a one-character separator: the text before its first
      occurrence, the whole string when it does not occur.\<close>
  "split_head sep s = takeWhile (\<lambda>c. c \<noteq> sep) s"

definition lower_char :: "char \<Rightarrow> char" where
  "lower_char c =
     (let n = (of_char c :: nat)
      in if (65 \<le> n \<and> n \<le> 90) \<or> (192 \<le> n \<and> n \<le> 222 \<and> n \<noteq> 215)
         then char_of (n + 32) else c)"

definition lower :: "string \<Rightarrow> string" where
  \<comment> \<open>\<open>s.lower()\<close>\<close>
  "lower s = map lower_char s"

definition is_decimal :: "char \<Rightarrow> bool" where
  \<comment> \<open>the ASCII digits, the only digits of the range that \<open>int()\<close> reads\<close>
  "is_decimal c = (let n = (of_char c :: nat) in 48 \<le> n \<and> n \<le> 57)"

definition isdigit_char :: "char \<Rightarrow> bool" where
  \<comment> \<open>\<open>str.isdigit\<close> on one character: the ASCII digits and the superscripts
      two (U+00B2), three (U+00B3) and one (U+00B9)\<close>
  "isdigit_char c =
     (let n = (of_char c :: nat) in (48 \<le> n \<and> n \<le> 57) \<or> n = 178 \<or> n = 179 \<or> n = 185)"

definition isdigit :: "string \<Rightarrow> bool" where
  \<comment> \<open>\<open>s.isdigit()\<close>: false on the empty string\<close>
  "isdigit s = (s \<noteq> [] \<and> list_all isdigit_char s)"

datatype py_error = ValueError | OverflowError

definition digit_value :: "char \<Rightarrow> int" where
  "digit_value c = of_char c - 48"

definition dec_value :: "string \<Rightarrow> int" where
  "dec_value s = foldl (\<lambda>acc c. 10 * acc + digit_value c) 0 s"

definition int_max_str_digits :: nat where
  \<comment> \<open>\<open>sys.int_info.default_max_str_digits\<close> (CPython 3.11 and later)\<close>
  "int_max_str_digits = 4300"

definition py_int :: "string \<Rightarrow> py_error + int" where
  \<comment> \<open>\<open>int(s)\<close> on a string that passed \<open>isdigit()\<close>, the only strings the source
      converts: a \<open>ValueError\<close> on a superscript digit and on more digits than the
      conversion limit.\<close>
  "py_int s =
     (if s \<noteq> [] \<and> list_all is_decimal s \<and> length s \<le> int_max_str_digits
      then Inr (dec_value s) else Inl ValueError)"

definition digit_char :: "nat \<Rightarrow> char" where
  "digit_char d = char_of (48 + d)"

fun str_nat :: "nat \<Rightarrow> string" where
  "str_nat n = (if n < 10 then [digit_char n] else str_nat (n div 10) @ [digit_char (n mod 10)])"

declare str_nat.simps [simp del]

definition str_int :: "int \<Rightarrow> string" where
  \<comment> \<open>\<open>str(n)\<close>, as the f-string \<open>f"{days}d"\<close> renders an integer\<close>
  "str_int n = (if n < 0 then CHR ''-'' # str_nat (nat (- n)) else str_nat (nat n))"

section \<open>Symbol Normalizer\<close>

text \<open>
  \<open>_normalize_stock_symbol\<close>: \<open>None\<close> gives the empty string, anything else
  \<open>str(stock_code).strip().split(".")[0].strip()\<close>. An absent code is \<open>None\<close>.
\<close>

definition normalize_stock_symbol :: "string option \<Rightarrow> string" where
  "normalize_stock_symbol stock_code =
     (case stock_code of
        None \<Rightarrow> []
      | Some s \<Rightarrow> strip (split_head CHR ''.'' (strip s)))"

section \<open>Interval Resolver\<close>

text \<open>
  \<open>IntervalType = Union[str, int, None]\<close>.
\<close>

datatype interval = INone | IInt int | IStr string

text \<open>
  The body of the \<open>try\<close> block of \<open>_parse_interval_to_days\<close>. Its one operation
  that can raise is \<open>int()\<close>.
\<close>

definition parse_interval_try :: "interval \<Rightarrow> int \<Rightarrow> py_error + int" where
  "parse_interval_try interval default_days =
     (case interval of
        INone \<Rightarrow> Inr default_days
      | IInt n \<Rightarrow> Inr (max 1 n)
      | IStr raw \<Rightarrow>
          (let s = lower (strip raw) in
           if s = [] then Inr default_days
           else if isdigit s then
             (case py_int s of Inl e \<Rightarrow> Inl e | Inr n \<Rightarrow> Inr (max 1 n))
           else
             (let unit = last s; v = butlast s in
              if \<not> isdigit v then Inr default_days
              else
                (case py_int v of
                   Inl e \<Rightarrow> Inl e
                 | Inr n \<Rightarrow>
                     if unit = CHR ''d'' then Inr (max 1 n)
                     else if unit = CHR ''m'' then Inr (max 1 (n * 30))
                     else if unit = CHR ''y'' then Inr (max 1 (n * 365))
                     else Inr default_days))))"

definition parse_interval_to_days :: "interval \<Rightarrow> int \<Rightarrow> int" where
  \<comment> \<open>\<open>_parse_interval_to_days\<close>: \<open>except Exception: return default_days\<close>\<close>
  "parse_interval_to_days interval default_days =
     (case interval of
        INone \<Rightarrow> default_days
      | _ \<Rightarrow> (case parse_interval_try interval default_days of
                Inl e \<Rightarrow> default_days
              | Inr days \<Rightarrow> days))"

text \<open>
  Dates. A \<open>datetime\<close> is represented by the proleptic Gregorian ordinal of its day
  (\<open>date.toordinal()\<close>: 1 is 0001-01-01, 3652059 is 9999-12-31); subtracting whole
  days keeps the time of day, and \<open>strftime("%Y-%m-%d")\<close> renders the day alone, one
  string per day. \<open>datetime.now()\<close> is the argument \<open>now\<close>.
\<close>

definition min_ordinal :: int where
  "min_ordinal = 1"

definition max_ordinal :: int where
  "max_ordinal = 3652059"

definition timedelta_max_days :: int where
  "timedelta_max_days = 999999999"

definition timedelta :: "int \<Rightarrow> py_error + int" where
  \<comment> \<open>\<open>timedelta(days=days)\<close>\<close>
  "timedelta days =
     (if \<bar>days\<bar> > timedelta_max_days then Inl OverflowError else Inr days)"

definition datetime_sub :: "int \<Rightarrow> int \<Rightarrow> py_error + int" where
  \<comment> \<open>\<open>dt - delta\<close>: \<open>OverflowError: date value out of range\<close> outside years 1 to 9999\<close>
  "datetime_sub dt delta =
     (if dt - delta < min_ordinal \<or> dt - delta > max_ordinal then Inl OverflowError
      else Inr (dt - delta))"

record date_range =
  start_date :: int
  end_date :: int
  normalized_interval :: string

definition calc_date_range :: "int \<Rightarrow> interval \<Rightarrow> py_error + date_range" where
  \<comment> \<open>\<open>_calc_date_range\<close>; nothing here catches an exception\<close>
  "calc_date_range now interval =
     (let days = parse_interval_to_days interval 365 in
      case timedelta days of
        Inl e \<Rightarrow> Inl e
      | Inr delta \<Rightarrow>
          (case datetime_sub now delta of
             Inl e \<Rightarrow> Inl e
           | Inr start_dt \<Rightarrow>
               Inr \<lparr>start_date = start_dt, end_date = now,
                    normalized_interval = str_int days @ ''d''\<rparr>))"

section \<open>Numbers and tables\<close>

text \<open>
  A \<open>float64\<close> is a real number or one of the three special values; arithmetic is
  exact on the reals and follows IEEE 754 on the special values. Rounding error, overflow
  to infinity and the sign of zero are not modelled (a division of a non-zero number by
  zero takes the zero as positive).
\<close>

datatype pyfloat = Fin real | PosInf | NegInf | NaN

fun isfinite :: "pyfloat \<Rightarrow> bool" where
  \<comment> \<open>\<open>math.isfinite\<close>\<close>
  "isfinite (Fin a) = True"
| "isfinite x = False"

fun isnan :: "pyfloat \<Rightarrow> bool" where
  \<comment> \<open>\<open>math.isnan\<close>; what \<open>dropna\<close> drops\<close>
  "isnan NaN = True"
| "isnan x = False"

fun pf_neg :: "pyfloat \<Rightarrow> pyfloat" where
  "pf_neg (Fin a) = Fin (- a)"
| "pf_neg PosInf = NegInf"
| "pf_neg NegInf = PosInf"
| "pf_neg NaN = NaN"

fun pf_add :: "pyfloat \<Rightarrow> pyfloat \<Rightarrow> pyfloat" where
  "pf_add NaN y = NaN"
| "pf_add x NaN = NaN"
| "pf_add (Fin a) (Fin b) = Fin (a + b)"
| "pf_add PosInf NegInf = NaN"
| "pf_add NegInf PosInf = NaN"
| "pf_add PosInf y = PosInf"
| "pf_add x PosInf = PosInf"
| "pf_add NegInf y = NegInf"
| "pf_add x NegInf = NegInf"

definition pf_sub :: "pyfloat \<Rightarrow> pyfloat \<Rightarrow> pyfloat" where
  "pf_sub x y = pf_add x (pf_neg y)"

fun pf_div :: "pyfloat \<Rightarrow> pyfloat \<Rightarrow> pyfloat" where
  "pf_div NaN y = NaN"
| "pf_div x NaN = NaN"
| "pf_div (Fin a) (Fin b) =
     (if b \<noteq> 0 then Fin (a / b) else if a = 0 then NaN else if 0 < a then PosInf else NegInf)"
| "pf_div (Fin a) y = Fin 0"
| "pf_div PosInf (Fin b) = (if 0 \<le> b then PosInf else NegInf)"
| "pf_div NegInf (Fin b) = (if 0 \<le> b then NegInf else PosInf)"
| "pf_div x y = NaN"

text \<open>
  A timestamp is a point in time as an integer (pandas counts nanoseconds). A column
  name of the provider is the list of its code points: the names are Chinese.
\<close>

type_synonym timestamp = int

type_synonym colname = "nat list"

text \<open>
  A raw cell of the provider's table is represented by what pandas makes of it:
  \<open>to_datetime c\<close> is \<open>pd.to_datetime(c, errors="coerce")\<close>, \<open>None\<close> for \<open>NaT\<close>,
  and \<open>to_numeric c\<close> is \<open>pd.to_numeric(c, errors="coerce")\<close>, \<open>NaN\<close> where the
  value does not parse.
\<close>

datatype raw_cell = Cell (to_datetime: "timestamp option") (to_numeric: pyfloat)

record raw_frame =
  columns :: "colname list"
  rows :: "(colname \<Rightarrow> raw_cell) list"

text \<open>
  The provider: \<open>ak.stock_zh_a_hist(symbol, period="daily", start_date, end_date,
  adjust="qfq")\<close>, which raises, returns \<open>None\<close> or returns a table. The two dates
  reach it as \<open>YYYYMMDD\<close> strings; the model passes the days they name.
\<close>

datatype provider_result = Raises | ReturnsNone | Returns raw_frame

type_synonym provider = "string \<Rightarrow> int \<Rightarrow> int \<Rightarrow> provider_result"

type_synonym provider_call = "string \<times> int \<times> int"

text \<open>
  The canonical OHLCV table: a list of bars in index order, \<open>Date\<close> the index. The
  five numeric columns are taken as \<open>float64\<close> columns.
\<close>

record bar =
  Date :: timestamp
  Open :: pyfloat
  High :: pyfloat
  Low :: pyfloat
  Close :: pyfloat
  Volume :: pyfloat

record enriched_bar = bar +
  MA_10 :: pyfloat
  MA_50 :: pyfloat
  Daily_Return :: pyfloat
  Volatility_20d :: pyfloat
  RSI :: pyfloat

section \<open>Data Fetcher\<close>

definition raw_Date :: colname where
  "raw_Date = [0x65E5, 0x671F]"

definition raw_Open :: colname where
  "raw_Open = [0x5F00, 0x76D8]"

definition raw_High :: colname where
  "raw_High = [0x6700, 0x9AD8]"

definition raw_Low :: colname where
  "raw_Low = [0x6700, 0x4F4E]"

definition raw_Close :: colname where
  "raw_Close = [0x6536, 0x76D8]"

definition raw_Volume :: colname where
  "raw_Volume = [0x6210, 0x4EA4, 0x91CF]"

definition rename_map :: "(colname \<times> string) list" where
  "rename_map =
     [(raw_Date, ''Date''), (raw_Open, ''Open''), (raw_High, ''High''),
      (raw_Low, ''Low''), (raw_Close, ''Close''), (raw_Volume, ''Volume'')]"

definition required :: "string list" where
  "required = [''Date'', ''Open'', ''High'', ''Low'', ''Close'', ''Volume'']"

definition frame_empty :: "raw_frame \<Rightarrow> bool" where
  \<comment> \<open>\<open>df.empty\<close>: an axis of length 0\<close>
  "frame_empty df = (columns df = [] \<or> rows df = [])"

text \<open>
  Lines 170 to 178 of the fetcher, on a table that has the six columns: parse the dates,
  drop the rows whose date is \<open>NaT\<close>, sort by date, make the five columns numeric, drop
  the rows whose \<open>Close\<close> is \<open>NaN\<close>. pandas sorts an index that is not already
  monotonic with numpy's quicksort, which promises no order among equal dates; the model
  takes the stable order, and nothing below depends on the order among equal dates.
\<close>

definition canonical_rows :: "raw_frame \<Rightarrow> bar list" where
  "canonical_rows df =
     (let dated = List.map_filter
                    (\<lambda>r. map_option (\<lambda>d. (d, r)) (to_datetime (r raw_Date))) (rows df);
          by_date = sort_key fst dated;
          numeric = map (\<lambda>(d, r).
                      \<lparr>Date = d,
                       Open = to_numeric (r raw_Open),
                       High = to_numeric (r raw_High),
                       Low = to_numeric (r raw_Low),
                       Close = to_numeric (r raw_Close),
                       Volume = to_numeric (r raw_Volume)\<rparr>) by_date
      in filter (\<lambda>b. \<not> isnan (Close b)) numeric)"

text \<open>
  \<open>fetch_china_stock_data\<close>. The result is the calls made to the provider and the
  table; an empty \<open>DataFrame\<close> is the empty list of bars.
\<close>

definition fetch_china_stock_data ::
  "provider \<Rightarrow> string \<Rightarrow> int \<Rightarrow> int \<Rightarrow> provider_call list \<times> bar list" where
  "fetch_china_stock_data provider stock_code start_d end_d =
     (let symbol = normalize_stock_symbol (Some stock_code) in
      if symbol = [] then ([], [])
      else
        (let calls = [(symbol, start_d, end_d)] in
         case provider symbol start_d end_d of
           Raises \<Rightarrow> (calls, [])
         | ReturnsNone \<Rightarrow> (calls, [])
         | Returns df \<Rightarrow>
             if frame_empty df then (calls, [])
             else
               (let present = filter (\<lambda>(c, name). c \<in> set (columns df)) rename_map;
                    existing = map fst present
                in if existing = [] then (calls, [])
                   else
                     (let renamed = map snd present
                      in if \<not> set required \<subseteq> set renamed then (calls, [])
                         else (calls, canonical_rows df)))))"

section \<open>Indicator Engine\<close>

text \<open>
  \<open>rolling(window=w, min_periods=1)\<close> at row \<open>i\<close> sees the last \<open>w\<close> rows up to
  \<open>i\<close>. pandas turns infinite entries into \<open>NaN\<close> before a rolling aggregation and
  aggregates the entries that are left.
\<close>

definition window :: "nat \<Rightarrow> 'a list \<Rightarrow> nat \<Rightarrow> 'a list" where
  "window w xs i = drop (Suc i - w) (take (Suc i) xs)"

definition finite_values :: "pyfloat list \<Rightarrow> real list" where
  "finite_values xs = List.map_filter (\<lambda>x. case x of Fin a \<Rightarrow> Some a | _ \<Rightarrow> None) xs"

definition mean :: "real list \<Rightarrow> real" where
  "mean vs = sum_list vs / real (length vs)"

definition rolling_mean :: "nat \<Rightarrow> pyfloat list \<Rightarrow> nat \<Rightarrow> pyfloat" where
  \<comment> \<open>\<open>xs.rolling(window=w, min_periods=1).mean()\<close> at row \<open>i\<close>\<close>
  "rolling_mean w xs i =
     (let vs = finite_values (window w xs i)
      in if 1 \<le> length vs then Fin (mean vs) else NaN)"

definition rolling_std :: "nat \<Rightarrow> pyfloat list \<Rightarrow> nat \<Rightarrow> pyfloat" where
  \<comment> \<open>\<open>xs.rolling(window=w, min_periods=1).std()\<close> at row \<open>i\<close>: the sample standard
      deviation (\<open>ddof=1\<close>), \<open>NaN\<close> on fewer than two observations\<close>
  "rolling_std w xs i =
     (let vs = finite_values (window w xs i); n = length vs
      in if 1 \<le> n \<and> 1 < n
         then Fin (sqrt (sum_list (map (\<lambda>v. (v - mean vs)\<^sup>2) vs) / real (n - 1)))
         else NaN)"

definition pct_change :: "pyfloat list \<Rightarrow> nat \<Rightarrow> pyfloat" where
  \<comment> \<open>\<open>xs.pct_change()\<close> at row \<open>i\<close>, \<open>xs / xs.shift(1) - 1\<close>, on a column without
      \<open>NaN\<close> (the fetcher drops the rows whose \<open>Close\<close> is \<open>NaN\<close>)\<close>
  "pct_change xs i =
     (if i = 0 then NaN else pf_sub (pf_div (xs ! i) (xs ! (i - 1))) (Fin 1))"

definition diff :: "pyfloat list \<Rightarrow> nat \<Rightarrow> pyfloat" where
  \<comment> \<open>\<open>xs.diff()\<close> at row \<open>i\<close>\<close>
  "diff xs i = (if i = 0 then NaN else pf_sub (xs ! i) (xs ! (i - 1)))"

fun clip_lower :: "real \<Rightarrow> pyfloat \<Rightarrow> pyfloat" where
  \<comment> \<open>\<open>x.clip(lower=lo)\<close>\<close>
  "clip_lower lo NaN = NaN"
| "clip_lower lo (Fin a) = Fin (max lo a)"
| "clip_lower lo PosInf = PosInf"
| "clip_lower lo NegInf = Fin lo"

definition replace_zero_nan :: "pyfloat \<Rightarrow> pyfloat" where
  \<comment> \<open>\<open>x.replace(0, np.nan)\<close>\<close>
  "replace_zero_nan x = (if x = Fin 0 then NaN else x)"

definition rint :: "real \<Rightarrow> int" where
  \<comment> \<open>round to the nearest integer, a tie to the even one\<close>
  "rint x =
     (let f = \<lfloor>x\<rfloor>; d = x - of_int f
      in if d < 1 / 2 then f else if 1 / 2 < d then f + 1 else if even f then f else f + 1)"

fun round4 :: "pyfloat \<Rightarrow> pyfloat" where
  \<comment> \<open>\<open>x.round(4)\<close>: numpy multiplies by \<open>10 ** 4\<close>, rounds to an integer and divides\<close>
  "round4 (Fin a) = Fin (of_int (rint (a * 10 ^ 4)) / 10 ^ 4)"
| "round4 x = x"

definition rsi_of :: "pyfloat \<Rightarrow> pyfloat" where
  \<comment> \<open>\<open>100 - (100 / (1 + rs))\<close>\<close>
  "rsi_of rs = pf_sub (Fin 100) (pf_div (Fin 100) (pf_add (Fin 1) rs))"

text \<open>
  \<open>feature_engineering\<close>. Each column is the list of its values, row by row; the last
  step rounds every float column. The values are those of exact arithmetic, which
  \<open>float64\<close> matches only where every intermediate result is representable (a result
  can differ from the code's in its last rounded digit). What is proved below uses of
  this function that it returns one row for each row with the dates unchanged, and the
  values it gives on a single bar of representable prices.
\<close>

definition feature_engineering :: "bar list \<Rightarrow> enriched_bar list" where
  "feature_engineering df =
     (if df = [] then []
      else
        (let idx = [0..<length df];
             close = map Close df;
             ma_10 = map (rolling_mean 10 close) idx;
             ma_50 = map (rolling_mean 50 close) idx;
             daily_return = map (pct_change close) idx;
             volatility_20d = map (rolling_std 20 daily_return) idx;
             delta = map (diff close) idx;
             gain = map (clip_lower 0) delta;
             loss = map (\<lambda>d. clip_lower 0 (pf_neg d)) delta;
             avg_gain = map (rolling_mean 14 gain) idx;
             avg_loss = map (\<lambda>i. replace_zero_nan (rolling_mean 14 loss i)) idx;
             rs = map (\<lambda>i. pf_div (avg_gain ! i) (avg_loss ! i)) idx;
             rsi = map rsi_of rs
         in map (\<lambda>i.
              \<lparr>Date = Date (df ! i),
               Open = round4 (Open (df ! i)),
               High = round4 (High (df ! i)),
               Low = round4 (Low (df ! i)),
               Close = round4 (Close (df ! i)),
               Volume = round4 (Volume (df ! i)),
               MA_10 = round4 (ma_10 ! i),
               MA_50 = round4 (ma_50 ! i),
               Daily_Return = round4 (daily_return ! i),
               Volatility_20d = round4 (volatility_20d ! i),
               RSI = round4 (rsi ! i)\<rparr>) idx))"

section \<open>Response Sanitizer\<close>

text \<open>
  Python values. \<open>NpFloating\<close> is a numpy floating scalar whose \<open>item()\<close> is a Python
  float (\<open>np.float16\<close>, \<open>np.float32\<close>, \<open>np.float64\<close>); \<open>NpLongdouble\<close> is an
  \<open>np.longdouble\<close>, an \<open>np.floating\<close> too, whose \<open>item()\<close> is an \<open>np.longdouble\<close>
  again and no Python float; \<open>NpInteger\<close> is an \<open>np.integer\<close>, whose \<open>item()\<close> is an
  \<open>int\<close>. A \<open>dict\<close> is the list of its items in insertion order, its keys strings
  (the sanitizer copies every key as it is).
\<close>

datatype pyval =
    PNone
  | PBool bool
  | PInt int
  | PFloat pyfloat
  | PStr string
  | PTimestamp timestamp
  | NpFloating pyfloat
  | NpLongdouble pyfloat
  | NpInteger int
  | PList "pyval list"
  | PTuple "pyval list"
  | PDict "(string \<times> pyval) list"

definition sanitize_float :: "pyfloat \<Rightarrow> pyval" where
  \<comment> \<open>the \<open>isinstance(obj, float)\<close> branch\<close>
  "sanitize_float x = (if \<not> isfinite x \<or> isnan x then PNone else PFloat x)"

text \<open>
  \<open>_sanitize_for_json\<close>. A numpy scalar is replaced by its \<open>item()\<close> first; then a
  \<open>float\<close>, a \<open>dict\<close> and a \<open>list\<close> are treated, and every other value, a tuple
  and the \<open>item()\<close> of an \<open>np.longdouble\<close> among them, is returned as it is.
\<close>

fun sanitize_for_json :: "pyval \<Rightarrow> pyval" where
  "sanitize_for_json (NpFloating x) = sanitize_float x"
| "sanitize_for_json (NpLongdouble x) = NpLongdouble x"
| "sanitize_for_json (NpInteger n) = PInt n"
| "sanitize_for_json (PFloat x) = sanitize_float x"
| "sanitize_for_json (PDict kvs) = PDict (map (\<lambda>(k, v). (k, sanitize_for_json v)) kvs)"
| "sanitize_for_json (PList vs) = PList (map sanitize_for_json vs)"
| "sanitize_for_json v = v"

section \<open>Pipeline Orchestrator\<close>

definition to_dict_records :: "enriched_bar list \<Rightarrow> pyval list" where
  \<comment> \<open>\<open>df.reset_index().to_dict(orient="records")\<close>: the index comes first, as a
      pandas \<open>Timestamp\<close>; the floats come as Python floats\<close>
  "to_dict_records df =
     map (\<lambda>r. PDict
            [(''Date'', PTimestamp (Date r)),
             (''Open'', PFloat (Open r)),
             (''High'', PFloat (High r)),
             (''Low'', PFloat (Low r)),
             (''Close'', PFloat (Close r)),
             (''Volume'', PFloat (Volume r)),
             (''MA_10'', PFloat (MA_10 r)),
             (''MA_50'', PFloat (MA_50 r)),
             (''Daily_Return'', PFloat (Daily_Return r)),
             (''Volatility_20d'', PFloat (Volatility_20d r)),
             (''RSI'', PFloat (RSI r))]) df"

fun py_len :: "pyval \<Rightarrow> nat" where
  \<comment> \<open>\<open>len\<close> of a list, a tuple or a dict; the source takes it of a list only\<close>
  "py_len (PList vs) = length vs"
| "py_len (PTuple vs) = length vs"
| "py_len (PDict kvs) = length kvs"
| "py_len v = 0"

record meta =
  meta_stock_code :: "string option"
  meta_symbol :: string
  meta_start_date :: int
  meta_end_date :: int
  meta_interval :: string
  meta_rows :: nat

record envelope =
  success :: bool
  message :: string
  meta :: meta
  data :: pyval

definition get_stock_data_with_features ::
  "int \<Rightarrow> provider \<Rightarrow> string option \<Rightarrow> interval
     \<Rightarrow> provider_call list \<times> (py_error + envelope)" where
  "get_stock_data_with_features now provider stock_code interval =
     (case calc_date_range now interval of
        Inl e \<Rightarrow> ([], Inl e)
      | Inr dr \<Rightarrow>
          (let symbol = normalize_stock_symbol stock_code in
           if symbol = [] then
             ([], Inr \<lparr>success = False,
                       message = ''Error: stock_code cannot be empty.'',
                       meta = \<lparr>meta_stock_code = stock_code, meta_symbol = [],
                               meta_start_date = start_date dr,
                               meta_end_date = end_date dr,
                               meta_interval = normalized_interval dr,
                               meta_rows = 0\<rparr>,
                       data = PList []\<rparr>)
           else
             (let (calls, df) =
                    fetch_china_stock_data provider symbol (start_date dr) (end_date dr)
              in if df = [] then
                   (calls, Inr \<lparr>success = False,
                               message = ''No data found for stock '' @ symbol @ ''.'',
                               meta = \<lparr>meta_stock_code = stock_code, meta_symbol = symbol,
                                       meta_start_date = start_date dr,
                                       meta_end_date = end_date dr,
                                       meta_interval = normalized_interval dr,
                                       meta_rows = 0\<rparr>,
                               data = PList []\<rparr>)
                 else
                   (let enriched = feature_engineering df;
                        records = sanitize_for_json (PList (to_dict_records enriched))
                    in (calls, Inr \<lparr>success = True,
                                   message = ''Successfully retrieved stock data for '' @ symbol,
                                   meta = \<lparr>meta_stock_code = stock_code, meta_symbol = symbol,
                                           meta_start_date = start_date dr,
                                           meta_end_date = end_date dr,
                                           meta_interval = normalized_interval dr,
                                           meta_rows = py_len records\<rparr>,
                                   data = records\<rparr>)))))"

section \<open>Specification predicates\<close>

text \<open>
  \<open>trimmed_of r t\<close>: \<open>r\<close> is \<open>t\<close> trimmed of surrounding whitespace, said without
  the code's \<open>strip\<close>: \<open>t\<close> is \<open>r\<close> between two runs of whitespace, and \<open>r\<close>
  neither starts nor ends with whitespace.
\<close>

definition trimmed_of :: "string \<Rightarrow> string \<Rightarrow> bool" where
  "trimmed_of r t =
     (\<exists>a b. t = a @ r @ b \<and> list_all is_space a \<and> list_all is_space b \<and>
            (r = [] \<or> (\<not> is_space (hd r) \<and> \<not> is_space (last r))))"

text \<open>
  A character that \<open>strip\<close> and \<open>lower\<close> leave alone.
\<close>

definition plain_char :: "char \<Rightarrow> bool" where
  "plain_char c = (\<not> is_space c \<and> lower_char c = c)"

text \<open>
  \<open>json_finite v\<close>: no Python float and no numpy \<open>float16\<close>, \<open>float32\<close> or
  \<open>float64\<close> scalar that is reached from \<open>v\<close> through lists and dict values is
  \<open>NaN\<close> or infinite. It does not look into a tuple or at an \<open>np.longdouble\<close>.
  \<open>native v\<close>: no numpy scalar that the sanitizer unboxes is reached from \<open>v\<close> through
  lists and dict values.
\<close>

fun json_finite :: "pyval \<Rightarrow> bool" where
  "json_finite (PFloat x) = isfinite x"
| "json_finite (NpFloating x) = isfinite x"
| "json_finite (PList vs) = list_all json_finite vs"
| "json_finite (PDict kvs) = list_all (\<lambda>(k, v). json_finite v) kvs"
| "json_finite v = True"

fun native :: "pyval \<Rightarrow> bool" where
  "native (NpFloating x) = False"
| "native (NpInteger n) = False"
| "native (PList vs) = list_all native vs"
| "native (PDict kvs) = list_all (\<lambda>(k, v). native v) kvs"
| "native v = True"




section \<open>Example inputs\<close>

text \<open>
  A provider that answers every call with a table of the six columns and the given rows,
  and the rows of the examples below.
\<close>

definition example_row ::
  "timestamp option \<Rightarrow> pyfloat \<Rightarrow> pyfloat \<Rightarrow> pyfloat \<Rightarrow> pyfloat \<Rightarrow> pyfloat
     \<Rightarrow> colname \<Rightarrow> raw_cell" where
  "example_row d opn h l c v col =
     (if col = raw_Date then Cell d NaN
      else if col = raw_Open then Cell None opn
      else if col = raw_High then Cell None h
      else if col = raw_Low then Cell None l
      else if col = raw_Close then Cell None c
      else if col = raw_Volume then Cell None v
      else Cell None NaN)"

definition example_provider :: "(colname \<Rightarrow> raw_cell) list \<Rightarrow> provider" where
  "example_provider rs symbol start_d end_d =
     Returns \<lparr>columns = map fst rename_map, rows = rs\<rparr>"

definition one_bar :: "colname \<Rightarrow> raw_cell" where
  "one_bar = example_row (Some 738887) (Fin 10) (Fin 11) (Fin 9) (Fin (21 / 2)) (Fin 1000)"

definition one_bar_envelope :: envelope where
  "one_bar_envelope =
     \<lparr>success = True,
      message = ''Successfully retrieved stock data for 600519'',
      meta = \<lparr>meta_stock_code = Some ''600519.SH'', meta_symbol = ''600519'',
              meta_start_date = 739558, meta_end_date = 739923,
              meta_interval = ''365d'', meta_rows = 1\<rparr>,
      data = PList
        [PDict [(''Date'', PTimestamp 738887), (''Open'', PFloat (Fin 10)),
                (''High'', PFloat (Fin 11)), (''Low'', PFloat (Fin 9)),
                (''Close'', PFloat (Fin (21 / 2))), (''Volume'', PFloat (Fin 1000)),
                (''MA_10'', PFloat (Fin (21 / 2))), (''MA_50'', PFloat (Fin (21 / 2))),
                (''Daily_Return'', PNone), (''Volatility_20d'', PNone),
                (''RSI'', PNone)]]\<rparr>"




section \<open>Properties of the strings\<close>

lemma dot_not_space: "\<not> is_space CHR ''.''"
  by (simp add: is_space_def)


lemma lstrip_head: "lstrip s = c # v \<Longrightarrow> \<not> is_space c"
  unfolding lstrip_def using hd_dropWhile[of is_space s] by auto

lemma lstrip_idem: "lstrip (lstrip s) = lstrip s"
  by (cases "lstrip s") (auto simp: lstrip_def dest: lstrip_head[unfolded lstrip_def])

lemma rstrip_snoc: "rstrip (xs @ [c]) = (if is_space c then rstrip xs else xs @ [c])"
  by (simp add: rstrip_def)

lemma rstrip_Nil: "rstrip [] = []" by (simp add: rstrip_def)

lemma rstrip_Cons: "rstrip (c # xs) = (if is_space c \<and> rstrip xs = [] then [] else c # rstrip xs)"
  by (induction xs rule: rev_induct) (auto simp: rstrip_def)

lemma lstrip_rstrip_head: "lstrip (rstrip (lstrip s)) = rstrip (lstrip s)"
proof (cases "lstrip s")
  case Nil
  show ?thesis unfolding Nil rstrip_Nil by (simp add: lstrip_def)
next
  case (Cons c v)
  then have "\<not> is_space c" by (rule lstrip_head)
  then show ?thesis using Cons by (simp add: rstrip_Cons lstrip_def)
qed

lemma rstrip_idem: "rstrip (rstrip s) = rstrip s"
  by (induction s rule: rev_induct) (auto simp: rstrip_snoc rstrip_Nil)

lemma strip_idem: "strip (strip s) = strip s"
  by (simp add: strip_def lstrip_rstrip_head rstrip_idem)

lemma split_head_lstrip: "\<not> is_space sep \<Longrightarrow> split_head sep (lstrip s) = lstrip (split_head sep s)"
  by (induction s) (auto simp: split_head_def lstrip_def)

lemma set_rstrip: "set (rstrip s) \<subseteq> set s"
  unfolding rstrip_def using set_dropWhileD by fastforce

lemma set_lstrip: "set (lstrip s) \<subseteq> set s"
  unfolding lstrip_def using set_dropWhileD by fastforce

lemma split_head_id: "sep \<notin> set s \<Longrightarrow> split_head sep s = s"
  by (induction s) (auto simp: split_head_def)

lemma rstrip_eq_Nil: "(rstrip s = []) = (\<forall>c\<in>set s. is_space c)"
  by (simp add: rstrip_def)

lemma split_head_rstrip:
  "\<not> is_space sep \<Longrightarrow> split_head sep (rstrip s) = (if sep \<in> set s then split_head sep s else rstrip s)"
proof (induction s)
  case Nil
  then show ?case by (simp add: split_head_def rstrip_Nil)
next
  case (Cons c s)
  show ?case
  proof (cases "c = sep")
    case True
    then show ?thesis using Cons.prems by (simp add: rstrip_Cons split_head_def)
  next
    case False
    show ?thesis
    proof (cases "sep \<in> set s")
      case True
      then have "rstrip s \<noteq> []" using Cons.prems by (auto simp: rstrip_eq_Nil)
      then show ?thesis using Cons False True by (simp add: rstrip_Cons split_head_def)
    next
      case F2: False
      then have "sep \<notin> set (rstrip (c # s))" using False set_rstrip[of "c # s"] by auto
      then show ?thesis using False F2 by (simp add: split_head_id)
    qed
  qed
qed

lemma lstrip_decomp: "s = takeWhile is_space s @ lstrip s"
  by (simp add: lstrip_def)

lemma rstrip_decomp: "s = rstrip s @ rev (takeWhile is_space (rev s))"
proof -
  have "rev s = takeWhile is_space (rev s) @ dropWhile is_space (rev s)" by simp
  then have "rev (rev s) = rev (takeWhile is_space (rev s) @ dropWhile is_space (rev s))" by simp
  then show ?thesis unfolding rstrip_def by (simp del: takeWhile_dropWhile_id)
qed

lemma rstrip_last: "rstrip s \<noteq> [] \<Longrightarrow> \<not> is_space (last (rstrip s))"
  unfolding rstrip_def using hd_dropWhile[of is_space "rev s"] by (simp add: last_rev)

lemma strip_hd: "strip s \<noteq> [] \<Longrightarrow> \<not> is_space (hd (strip s))"
  unfolding strip_def by (cases "lstrip s") (auto simp: rstrip_Nil rstrip_Cons dest: lstrip_head)

lemma strip_trimmed: "trimmed_of (strip t) t"
proof -
  let ?a = "takeWhile is_space t" and ?b = "rev (takeWhile is_space (rev (lstrip t)))"
  have "t = ?a @ lstrip t" by (rule lstrip_decomp)
  also have "lstrip t = strip t @ ?b" unfolding strip_def by (rule rstrip_decomp)
  finally have "t = ?a @ strip t @ ?b" .
  moreover have "list_all is_space ?a" and "list_all is_space ?b"
    by (auto simp: list_all_iff dest: set_takeWhileD)
  moreover have "strip t = [] \<or> (\<not> is_space (hd (strip t)) \<and> \<not> is_space (last (strip t)))"
    using strip_hd[of t] rstrip_last[of "lstrip t"] by (auto simp: strip_def)
  ultimately show ?thesis unfolding trimmed_of_def by blast
qed

lemma all_not_space_strip:
  assumes "list_all (\<lambda>c. \<not> is_space c) s"
  shows "strip s = s"
proof -
  have "lstrip s = s" using assms by (cases s) (auto simp: lstrip_def)
  moreover have "rstrip s = s"
    using assms by (cases s rule: rev_cases) (auto simp: rstrip_snoc rstrip_Nil)
  ultimately show ?thesis by (simp add: strip_def)
qed

lemma digit_char_decimal: "d < 10 \<Longrightarrow> is_decimal (digit_char d)"
  by (simp add: is_decimal_def digit_char_def)

lemma str_nat_decimal: "list_all is_decimal (str_nat n)"
proof (induction n rule: str_nat.induct)
  case (1 n)
  show ?case
  proof (cases "n < 10")
    case True
    then show ?thesis by (subst str_nat.simps) (simp add: digit_char_decimal)
  next
    case False
    then show ?thesis using 1 by (subst str_nat.simps) (simp add: digit_char_decimal)
  qed
qed

lemma str_nat_nonempty: "str_nat n \<noteq> []"
  by (subst str_nat.simps) simp

lemma dec_value_snoc: "dec_value (s @ [c]) = 10 * dec_value s + digit_value c"
  by (simp add: dec_value_def)

lemma digit_value_char:
  assumes "d < 10"
  shows "digit_value (digit_char d) = int d"
proof -
  have "(of_char (char_of (48 + d)) :: int) = int (of_char (char_of (48 + d)))"
    by (rule of_nat_of_char [symmetric])
  also have "\<dots> = int ((48 + d) mod 256)"
    by (simp only: of_char_of)
  also have "\<dots> = 48 + int d"
    using assms by simp
  finally show ?thesis
    by (simp add: digit_value_def digit_char_def)
qed

lemma dec_value_str_nat: "dec_value (str_nat n) = int n"
proof (induction n rule: str_nat.induct)
  case (1 n)
  show ?case
  proof (cases "n < 10")
    case True
    then show ?thesis by (subst str_nat.simps) (simp add: dec_value_def digit_value_char)
  next
    case False
    then show ?thesis using 1
      by (subst str_nat.simps) (simp add: dec_value_snoc digit_value_char zmod_int zdiv_int)
  qed
qed

lemma length_str_nat: "n < 10 ^ k \<Longrightarrow> 0 < k \<Longrightarrow> length (str_nat n) \<le> k"
proof (induction n arbitrary: k rule: str_nat.induct)
  case (1 n)
  show ?case
  proof (cases "n < 10")
    case True
    then show ?thesis using 1 by (subst str_nat.simps) simp
  next
    case False
    then obtain j where k: "k = Suc j" using 1(3) by (cases k) auto
    with False 1(2) have "0 < j" by (cases j) auto
    moreover have "n div 10 < 10 ^ j" using 1(2) k by (simp add: less_mult_imp_div_less mult.commute) 
    ultimately have "length (str_nat (n div 10)) \<le> j" using 1(1) False by simp
    then show ?thesis using False k by (subst str_nat.simps) simp
  qed
qed

section \<open>Symbol Normalizer: properties\<close>

lemma normalize_split_strip: "normalize_stock_symbol (Some s) = strip (split_head CHR ''.'' s)"
proof (cases "CHR ''.'' \<in> set (lstrip s)")
  case True
  then show ?thesis
    by (simp add: normalize_stock_symbol_def strip_def split_head_rstrip dot_not_space
        split_head_lstrip lstrip_idem)
next
  case False
  have "set s \<subseteq> set (lstrip s) \<union> Collect is_space"
    unfolding lstrip_def by (induction s) auto
  then have "CHR ''.'' \<notin> set s" using False dot_not_space by auto
  then show ?thesis using False
    by (simp add: normalize_stock_symbol_def strip_def split_head_rstrip dot_not_space
        split_head_id lstrip_rstrip_head rstrip_idem)
qed

lemma split_head_no_sep: "sep \<notin> set (split_head sep s)"
  unfolding split_head_def by (induction s) auto

lemma strip_no_sep: "sep \<notin> set s \<Longrightarrow> sep \<notin> set (strip s)"
  unfolding strip_def using set_rstrip set_lstrip by fastforce

lemma normalize_None: "normalize_stock_symbol None = []"
  by (simp add: normalize_stock_symbol_def)

lemma normalize_no_dot: "CHR ''.'' \<notin> set (normalize_stock_symbol c)"
proof (cases c)
  case None
  then show ?thesis by (simp add: normalize_None)
next
  case (Some s)
  show ?thesis unfolding Some normalize_split_strip
    by (rule strip_no_sep) (rule split_head_no_sep)
qed

lemma normalize_stripped: "strip (normalize_stock_symbol c) = normalize_stock_symbol c"
proof (cases c)
  case None
  then show ?thesis by (simp add: normalize_None strip_def lstrip_def rstrip_Nil)
next
  case (Some s)
  then show ?thesis by (simp add: normalize_split_strip strip_idem)
qed

text \<open>
  C7. For every input string, symbol normalization returns the text before the first
  \<open>.\<close>, trimmed of surrounding whitespace (\<open>trimmed_of\<close> says so without the code's
  \<open>strip\<close>); \<open>600519.SH\<close>, \<open>600519.SZ\<close> and \<open>600519\<close> all normalize to
  \<open>600519\<close>; an empty or absent input gives the empty string, as a value and not an
  error.
\<close>

theorem normalize_stock_symbol_before_dot_trimmed:
  "normalize_stock_symbol (Some s) = strip (split_head CHR ''.'' s)
   \<and> trimmed_of (normalize_stock_symbol (Some s)) (takeWhile (\<lambda>c. c \<noteq> CHR ''.'') s)
   \<and> normalize_stock_symbol (Some ''600519.SH'') = ''600519''
   \<and> normalize_stock_symbol (Some ''600519.SZ'') = ''600519''
   \<and> normalize_stock_symbol (Some ''600519'') = ''600519''
   \<and> normalize_stock_symbol (Some []) = []
   \<and> normalize_stock_symbol None = []"
proof -
  have "trimmed_of (normalize_stock_symbol (Some s)) (takeWhile (\<lambda>c. c \<noteq> CHR ''.'') s)"
    using strip_trimmed[of "split_head CHR ''.'' s"]
    by (simp add: normalize_split_strip split_head_def)
  moreover have "normalize_stock_symbol (Some ''600519.SH'') = ''600519''"
    and "normalize_stock_symbol (Some ''600519.SZ'') = ''600519''"
    and "normalize_stock_symbol (Some ''600519'') = ''600519''"
    and "normalize_stock_symbol (Some []) = []"
    by (simp_all add: normalize_split_strip split_head_def strip_def lstrip_def rstrip_def
        is_space_def)
  ultimately show ?thesis by (simp add: normalize_split_strip normalize_None)
qed

text \<open>
  C10. Symbol normalization is idempotent: its output holds no \<open>.\<close> and no surrounding
  whitespace, so normalizing it again (as the fetcher does with the symbol the
  orchestrator has already normalized) leaves it unchanged.
\<close>

theorem normalize_stock_symbol_idempotent:
  "normalize_stock_symbol (Some (normalize_stock_symbol c)) = normalize_stock_symbol c
   \<and> CHR ''.'' \<notin> set (normalize_stock_symbol c)
   \<and> strip (normalize_stock_symbol c) = normalize_stock_symbol c"
proof -
  have "split_head CHR ''.'' (normalize_stock_symbol c) = normalize_stock_symbol c"
    by (rule split_head_id) (rule normalize_no_dot)
  then have "normalize_stock_symbol (Some (normalize_stock_symbol c)) = normalize_stock_symbol c"
    by (simp add: normalize_split_strip normalize_stripped)
  then show ?thesis by (simp add: normalize_no_dot normalize_stripped)
qed

section \<open>Interval Resolver: properties\<close>


lemma decimal_not_space: "is_decimal c \<Longrightarrow> \<not> is_space c"
  by (auto simp: is_decimal_def is_space_def Let_def)

lemma decimal_lower: "is_decimal c \<Longrightarrow> lower_char c = c"
  by (auto simp: is_decimal_def lower_char_def Let_def)

lemma decimal_isdigit: "is_decimal c \<Longrightarrow> isdigit_char c"
  by (auto simp: is_decimal_def isdigit_char_def Let_def)

lemma plain_strip_lower:
  assumes "list_all plain_char s"
  shows "lower (strip s) = s"
proof -
  have "list_all (\<lambda>c. \<not> is_space c) s" using assms by (simp add: list_all_iff plain_char_def)
  then have "strip s = s" by (rule all_not_space_strip)
  moreover have "map lower_char s = s" using assms by (induction s) (auto simp: plain_char_def)
  ultimately show ?thesis by (simp add: lower_def)
qed

lemma str_nat_plain: "list_all plain_char (str_nat n)"
  using str_nat_decimal[of n] by (auto simp: list_all_iff plain_char_def decimal_not_space decimal_lower)

lemma str_nat_isdigit: "isdigit (str_nat n)"
  using str_nat_decimal[of n] str_nat_nonempty[of n] by (auto simp: isdigit_def list_all_iff decimal_isdigit)

lemma py_int_str_nat: "length (str_nat n) \<le> int_max_str_digits \<Longrightarrow> py_int (str_nat n) = Inr (int n)"
  by (simp add: py_int_def str_nat_nonempty str_nat_decimal dec_value_str_nat)

lemma parse_try_digits:
  assumes "length (str_nat n) \<le> int_max_str_digits"
  shows "parse_interval_try (IStr (str_nat n)) dflt = Inr (max 1 (int n))"
  using assms
  by (simp add: parse_interval_try_def plain_strip_lower str_nat_plain str_nat_nonempty
      str_nat_isdigit py_int_str_nat)

lemma parse_try_unit:
  assumes "length (str_nat n) \<le> int_max_str_digits" and "plain_char u" and "\<not> isdigit_char u"
  shows "parse_interval_try (IStr (str_nat n @ [u])) dflt =
         (if u = CHR ''d'' then Inr (max 1 (int n))
          else if u = CHR ''m'' then Inr (max 1 (int n * 30))
          else if u = CHR ''y'' then Inr (max 1 (int n * 365))
          else Inr dflt)"
proof -
  have "lower (strip (str_nat n @ [u])) = str_nat n @ [u]"
    by (rule plain_strip_lower) (simp add: str_nat_plain assms)
  moreover have "\<not> isdigit (str_nat n @ [u])" using assms(3) by (simp add: isdigit_def)
  ultimately show ?thesis using assms(1)
    by (simp add: parse_interval_try_def str_nat_isdigit py_int_str_nat)
qed

lemma small_length: "n < 10 ^ 7 \<Longrightarrow> length (str_nat n) \<le> int_max_str_digits"
  using length_str_nat[of n 7] by (simp add: int_max_str_digits_def)

lemma unit_chars:
  "plain_char CHR ''d''" "plain_char CHR ''m''" "plain_char CHR ''y''"
  "\<not> isdigit_char CHR ''d''" "\<not> isdigit_char CHR ''m''" "\<not> isdigit_char CHR ''y''"
  by (simp_all add: plain_char_def is_space_def lower_char_def isdigit_char_def)

lemma calc_date_range_days:
  assumes "parse_interval_to_days i 365 = days" and "1 \<le> days" and "days < now" and "now \<le> max_ordinal"
  shows "calc_date_range now i =
         Inr \<lparr>start_date = now - days, end_date = now, normalized_interval = str_int days @ ''d''\<rparr>"
  using assms
  by (simp add: calc_date_range_def timedelta_def datetime_sub_def timedelta_max_days_def
      min_ordinal_def max_ordinal_def)

lemma py_int_cases: "py_int s = Inl ValueError \<or> (\<exists>n. py_int s = Inr n)"
  by (simp add: py_int_def)

lemma parse_try_str:
  "parse_interval_try (IStr raw) d = Inl ValueError \<or> parse_interval_try (IStr raw) d = Inr d
   \<or> (\<exists>x. parse_interval_try (IStr raw) d = Inr x \<and> 1 \<le> x)"
proof -
  define s where "s = lower (strip raw)"
  define v where "v = butlast s"
  have unfold: "parse_interval_try (IStr raw) d =
     (if s = [] then Inr d
      else if isdigit s then (case py_int s of Inl e \<Rightarrow> Inl e | Inr n \<Rightarrow> Inr (max 1 n))
      else if \<not> isdigit v then Inr d
      else (case py_int v of
              Inl e \<Rightarrow> Inl e
            | Inr n \<Rightarrow>
                if last s = CHR ''d'' then Inr (max 1 n)
                else if last s = CHR ''m'' then Inr (max 1 (n * 30))
                else if last s = CHR ''y'' then Inr (max 1 (n * 365))
                else Inr d))"
    unfolding parse_interval_try_def s_def v_def Let_def by simp
  from py_int_cases[of s] py_int_cases[of v] show ?thesis
    unfolding unfold by (elim disjE exE conjE) simp_all
qed

lemma parse_ge_1: "1 \<le> d \<Longrightarrow> 1 \<le> parse_interval_to_days i d"
proof (cases i)
  case INone
  assume "1 \<le> d"
  then show ?thesis by (simp add: INone parse_interval_to_days_def)
next
  case (IInt n)
  then show ?thesis by (simp add: parse_interval_to_days_def parse_interval_try_def)
next
  case (IStr raw)
  assume "1 \<le> d"
  then show ?thesis using parse_try_str[of raw d]
    by (auto simp: IStr parse_interval_to_days_def)
qed

lemma str_int_nat: "0 \<le> n \<Longrightarrow> str_int n = str_nat (nat n)"
  by (simp add: str_int_def)

lemma parse_days_int: "0 < n \<Longrightarrow> parse_interval_to_days (IInt n) d = n"
  by (simp add: parse_interval_to_days_def parse_interval_try_def)

lemma parse_days_digits:
  assumes "0 < n" and "n < 10 ^ 7"
  shows "parse_interval_to_days (IStr (str_int n)) d = n"
proof -
  have "nat n < 10 ^ 7" using assms by (simp add: nat_less_iff)
  then have "length (str_nat (nat n)) \<le> int_max_str_digits" by (rule small_length)
  then show ?thesis using assms(1)
    by (simp add: parse_interval_to_days_def str_int_nat parse_try_digits)
qed

lemma parse_days_unit:
  assumes "0 < n" and "n < 10 ^ 7"
  shows "parse_interval_to_days (IStr (str_int n @ ''d'')) d = n"
    and "parse_interval_to_days (IStr (str_int n @ ''m'')) d = n * 30"
    and "parse_interval_to_days (IStr (str_int n @ ''y'')) d = n * 365"
proof -
  have "nat n < 10 ^ 7" using assms by (simp add: nat_less_iff)
  then have len: "length (str_nat (nat n)) \<le> int_max_str_digits" by (rule small_length)
  show "parse_interval_to_days (IStr (str_int n @ ''d'')) d = n"
    using assms(1) parse_try_unit[OF len unit_chars(1) unit_chars(4), of d]
    by (simp add: parse_interval_to_days_def str_int_nat)
  show "parse_interval_to_days (IStr (str_int n @ ''m'')) d = n * 30"
    using assms(1) parse_try_unit[OF len unit_chars(2) unit_chars(5), of d]
    by (simp add: parse_interval_to_days_def str_int_nat)
  show "parse_interval_to_days (IStr (str_int n @ ''y'')) d = n * 365"
    using assms(1) parse_try_unit[OF len unit_chars(3) unit_chars(6), of d]
    by (simp add: parse_interval_to_days_def str_int_nat)
qed

lemma parse_examples:
  "parse_interval_to_days (IStr ''6m'') 365 = 180"
  "parse_interval_to_days (IStr ''1y'') 365 = 365"
  "parse_interval_to_days (IStr ''0d'') 365 = 1"
  "parse_interval_to_days (IStr ''3oy'') 365 = 365"
  "parse_interval_to_days (IStr []) 365 = 365"
  "parse_interval_to_days INone 365 = 365"
  by code_simp+

text \<open>
  C3, as amended. For every positive integer \<open>n\<close> whose resolved day count is smaller
  than the ordinal of the current date (the start date is then a date on or after
  0001-01-01): the intervals \<open>n\<close> (integer), \<open>"{n}"\<close> and \<open>"{n}d"\<close> resolve to
  \<open>n\<close> days, \<open>"{n}m"\<close> to \<open>30 * n\<close> days and \<open>"{n}y"\<close> to \<open>365 * n\<close> days;
  \<open>"6m"\<close> is 180 days, \<open>"1y"\<close> 365 days and \<open>"0d"\<close> is clamped to 1 day; and the
  result is the range whose end is the current date, whose start is that date minus the
  day count, and whose normalized interval is \<open>"{days}d"\<close>.
\<close>

theorem calc_date_range_valid_day_counts:
  assumes "0 < n" and "now \<le> max_ordinal"
  shows
    "(n < now \<longrightarrow>
        (\<forall>i \<in> {IInt n, IStr (str_int n), IStr (str_int n @ ''d'')}.
           parse_interval_to_days i 365 = n \<and>
           calc_date_range now i =
             Inr \<lparr>start_date = now - n, end_date = now,
                  normalized_interval = str_int n @ ''d''\<rparr>))
     \<and> (n * 30 < now \<longrightarrow>
           parse_interval_to_days (IStr (str_int n @ ''m'')) 365 = n * 30 \<and>
           calc_date_range now (IStr (str_int n @ ''m'')) =
             Inr \<lparr>start_date = now - n * 30, end_date = now,
                  normalized_interval = str_int (n * 30) @ ''d''\<rparr>)
     \<and> (n * 365 < now \<longrightarrow>
           parse_interval_to_days (IStr (str_int n @ ''y'')) 365 = n * 365 \<and>
           calc_date_range now (IStr (str_int n @ ''y'')) =
             Inr \<lparr>start_date = now - n * 365, end_date = now,
                  normalized_interval = str_int (n * 365) @ ''d''\<rparr>)
     \<and> parse_interval_to_days (IStr ''6m'') 365 = 180
     \<and> parse_interval_to_days (IStr ''1y'') 365 = 365
     \<and> parse_interval_to_days (IStr ''0d'') 365 = 1
     \<and> (1 < now \<longrightarrow>
           calc_date_range now (IStr ''0d'') =
             Inr \<lparr>start_date = now - 1, end_date = now, normalized_interval = ''1d''\<rparr>)"
proof -
  have small: "n < 10 ^ 7" if "n < now" using that assms(2) by (simp add: max_ordinal_def)
  have a: "parse_interval_to_days i 365 = n \<and>
           calc_date_range now i =
             Inr \<lparr>start_date = now - n, end_date = now,
                  normalized_interval = str_int n @ ''d''\<rparr>"
    if "n < now" and "i \<in> {IInt n, IStr (str_int n), IStr (str_int n @ ''d'')}" for i
  proof -
    have "parse_interval_to_days i 365 = n"
      using that(2) assms(1) small[OF that(1)]
      by (auto simp: parse_days_int parse_days_digits parse_days_unit(1))
    then show ?thesis
      using calc_date_range_days[of i n now] assms that(1) by simp
  qed
  have b: "parse_interval_to_days (IStr (str_int n @ ''m'')) 365 = n * 30 \<and>
           calc_date_range now (IStr (str_int n @ ''m'')) =
             Inr \<lparr>start_date = now - n * 30, end_date = now,
                  normalized_interval = str_int (n * 30) @ ''d''\<rparr>"
    if "n * 30 < now"
  proof -
    have "n < now" using that assms(1) by simp
    then have "parse_interval_to_days (IStr (str_int n @ ''m'')) 365 = n * 30"
      using assms(1) small by (simp add: parse_days_unit(2))
    then show ?thesis
      using calc_date_range_days[of "IStr (str_int n @ ''m'')" "n * 30" now] assms that
      by simp
  qed
  have c: "parse_interval_to_days (IStr (str_int n @ ''y'')) 365 = n * 365 \<and>
           calc_date_range now (IStr (str_int n @ ''y'')) =
             Inr \<lparr>start_date = now - n * 365, end_date = now,
                  normalized_interval = str_int (n * 365) @ ''d''\<rparr>"
    if "n * 365 < now"
  proof -
    have "n < now" using that assms(1) by simp
    then have "parse_interval_to_days (IStr (str_int n @ ''y'')) 365 = n * 365"
      using assms(1) small by (simp add: parse_days_unit(3))
    then show ?thesis
      using calc_date_range_days[of "IStr (str_int n @ ''y'')" "n * 365" now] assms that
      by simp
  qed
  have one: "str_int 1 = ''1''"
    by (simp add: str_int_def str_nat.simps digit_char_def char_of_eq_iff)
  have d: "calc_date_range now (IStr ''0d'') =
             Inr \<lparr>start_date = now - 1, end_date = now, normalized_interval = ''1d''\<rparr>"
    if "1 < now"
    using calc_date_range_days[of "IStr ''0d''" 1 now] assms(2) that
    by (simp add: parse_examples(3) one)
  from a b c d show ?thesis
    by (simp only: parse_examples(1-3) simp_thms) blast
qed

theorem calc_date_range_valid_day_counts_witness:
  "(0::int) < 30 \<and> (739923::int) \<le> max_ordinal \<and> (30::int) < 739923
   \<and> parse_interval_to_days (IStr ''30d'') 365 = 30
   \<and> calc_date_range 739923 (IStr ''30d'') =
         Inr \<lparr>start_date = 739893, end_date = 739923, normalized_interval = ''30d''\<rparr>
   \<and> calc_date_range 739923 (IStr ''30m'') =
         Inr \<lparr>start_date = 739023, end_date = 739923, normalized_interval = ''900d''\<rparr>"
proof -
  have h: "(0::int) < 30" "(739923::int) \<le> max_ordinal"
    by (simp_all add: max_ordinal_def)
  have s: "str_int 30 = ''30''" "str_int 900 = ''900''"
    by (simp_all add: str_int_def str_nat.simps digit_char_def char_of_eq_iff)
  from calc_date_range_valid_day_counts[OF h] show ?thesis
    by (simp add: s max_ordinal_def)
qed

text \<open>
  The claim as stated fails for a day count that reaches before the year 1: at the
  current date 2026-11-03 (ordinal 739923) the interval \<open>"10000000d"\<close> parses to
  10000000 days and the date subtraction raises.
\<close>

theorem calc_date_range_huge_day_count:
  "parse_interval_to_days (IStr ''10000000d'') 365 = 10000000
   \<and> calc_date_range 739923 (IStr ''10000000d'') = Inl OverflowError"
  by code_simp

text \<open>
  C4. What holds of it: parsing never raises (the model of \<open>_parse_interval_to_days\<close>
  is a total function into the integers, its \<open>ValueError\<close> caught), absent, empty and
  malformed expressions give the default, every day count is at least 1, and a range
  that is returned has its start before its end.
\<close>

lemma parse_interval_to_days_default_and_floor:
  "1 \<le> parse_interval_to_days i 365
   \<and> parse_interval_to_days INone 365 = 365
   \<and> parse_interval_to_days (IStr []) 365 = 365
   \<and> parse_interval_to_days (IStr ''3oy'') 365 = 365"
  using parse_ge_1[of 365 i] by (simp add: parse_examples)

lemma calc_date_range_start_before_end:
  assumes "calc_date_range now i = Inr r"
  shows "start_date r < end_date r"
proof -
  have "1 \<le> parse_interval_to_days i 365" by (rule parse_ge_1) simp
  then show ?thesis using assms
    by (auto simp: calc_date_range_def timedelta_def datetime_sub_def Let_def
        split: if_splits)
qed

text \<open>
  C4. Where it fails: \<open>_calc_date_range\<close> itself catches nothing, and
  \<open>timedelta(days=days)\<close> and the subtraction from \<open>datetime.now()\<close> raise
  \<open>OverflowError\<close> on a large day count. At the current date 2026-11-03 (ordinal
  739923):
\<close>

theorem calc_date_range_raises_overflow:
  "calc_date_range 739923 (IStr ''9999999d'') = Inl OverflowError
   \<and> calc_date_range 739923 (IInt 1000000000) = Inl OverflowError"
  by code_simp

section \<open>Response Sanitizer: properties\<close>

lemma sanitize_float_finite: "json_finite (sanitize_float x)"
  by (cases x) (simp_all add: sanitize_float_def)

lemma sanitize_float_idem: "sanitize_for_json (sanitize_float x) = sanitize_float x"
  by (cases x) (simp_all add: sanitize_float_def)

lemma sanitize_json_finite: "json_finite (sanitize_for_json x)"
  by (induction x rule: sanitize_for_json.induct)
     (auto simp: sanitize_float_finite list_all_iff)

lemma sanitize_idem: "sanitize_for_json (sanitize_for_json x) = sanitize_for_json x"
  by (induction x rule: sanitize_for_json.induct)
     (auto simp: sanitize_float_idem)

lemma sanitize_id: "json_finite x \<Longrightarrow> native x \<Longrightarrow> sanitize_for_json x = x"
proof (induction x rule: sanitize_for_json.induct)
  case (4 x)
  then show ?case by (cases x) (simp_all add: sanitize_float_def)
next
  case (5 kvs)
  then have "map (\<lambda>(k, v). (k, sanitize_for_json v)) kvs = map (\<lambda>kv. kv) kvs"
    by (intro map_cong) (fastforce simp: list_all_iff)+
  then show ?case by simp
next
  case (6 vs)
  then have "map sanitize_for_json vs = map (\<lambda>v. v) vs"
    by (intro map_cong) (auto simp: list_all_iff)
  then show ?case by simp
qed simp_all

lemma sanitize_keys: "sanitize_for_json (PDict kvs) = PDict kvs' \<Longrightarrow> map fst kvs' = map fst kvs"
  by (auto simp: case_prod_unfold comp_def)

section \<open>Data Fetcher and orchestrator: properties\<close>

lemma length_feature_engineering: "length (feature_engineering df) = length df"
  by (simp add: feature_engineering_def Let_def)





lemma fetch_calls:
  "fst (fetch_china_stock_data provider code s e) =
   (if normalize_stock_symbol (Some code) = [] then [] else [(normalize_stock_symbol (Some code), s, e)])"
  by (auto simp: fetch_china_stock_data_def Let_def split: if_splits provider_result.splits)


lemmas eval_strings = normalize_stock_symbol_def strip_def lstrip_def rstrip_def split_head_def is_space_def
lemmas eval_fetch = fetch_china_stock_data_def example_provider_def frame_empty_def rename_map_def required_def
     canonical_rows_def List.map_filter_simps example_row_def
     raw_Date_def raw_Open_def raw_High_def raw_Low_def raw_Close_def raw_Volume_def
lemmas eval_features = feature_engineering_def rolling_mean_def window_def finite_values_def
     mean_def pct_change_def rolling_std_def diff_def replace_zero_nan_def rsi_of_def pf_sub_def rint_def Let_def

lemma range_365d:
  "calc_date_range 739923 (IStr ''365d'') =
     Inr \<lparr>start_date = 739558, end_date = 739923, normalized_interval = ''365d''\<rparr>"
proof -
  have "parse_interval_to_days (IStr ''365d'') 365 = 365" by code_simp
  moreover have "str_int 365 = ''365''"
    by (simp add: str_int_def str_nat.simps digit_char_def char_of_eq_iff)
  ultimately show ?thesis
    using calc_date_range_days[of "IStr ''365d''" 365 739923] by (simp add: max_ordinal_def)
qed

lemma fetch_one_bar:
  "fetch_china_stock_data (example_provider [one_bar]) ''600519'' 739558 739923 =
     ([(''600519'', 739558, 739923)],
      [\<lparr>Date = 738887, Open = Fin 10, High = Fin 11, Low = Fin 9, Close = Fin (21 / 2),
        Volume = Fin 1000\<rparr>])"
  by (simp add: eval_strings eval_fetch one_bar_def)

lemma features_one_bar:
  "feature_engineering
     [\<lparr>Date = 738887, Open = Fin 10, High = Fin 11, Low = Fin 9, Close = Fin (21 / 2),
       Volume = Fin 1000\<rparr>] =
     [\<lparr>Date = 738887, Open = Fin 10, High = Fin 11, Low = Fin 9, Close = Fin (21 / 2),
       Volume = Fin 1000, MA_10 = Fin (21 / 2), MA_50 = Fin (21 / 2), Daily_Return = NaN,
       Volatility_20d = NaN, RSI = NaN\<rparr>]"
  by (simp add: eval_features List.map_filter_simps)

lemma normalize_600519_SH: "normalize_stock_symbol (Some ''600519.SH'') = ''600519''"
  by (simp add: eval_strings)

lemma call_one_bar:
  "get_stock_data_with_features 739923 (example_provider [one_bar]) (Some ''600519.SH'')
     (IStr ''365d'') =
   ([(''600519'', 739558, 739923)], Inr one_bar_envelope)"
  by (simp add: get_stock_data_with_features_def range_365d normalize_600519_SH fetch_one_bar
      features_one_bar to_dict_records_def sanitize_float_def Let_def one_bar_envelope_def)

lemma envelope_shape:
  assumes "get_stock_data_with_features now provider stock_code interval = (calls, Inr env)"
  shows "meta_rows (meta env) = py_len (data env) \<and> (\<exists>rs. data env = PList rs)
         \<and> success env = (data env \<noteq> PList [])"
proof -
  obtain dr where dr: "calc_date_range now interval = Inr dr"
    using assms by (auto simp: get_stock_data_with_features_def split: sum.splits)
  define symbol where "symbol = normalize_stock_symbol stock_code"
  obtain cs df where f: "fetch_china_stock_data provider symbol (start_date dr) (end_date dr) = (cs, df)"
    by (cases "fetch_china_stock_data provider symbol (start_date dr) (end_date dr)")
  show ?thesis
  proof (cases "symbol = []")
    case True
    then show ?thesis using assms dr
      by (auto simp: get_stock_data_with_features_def symbol_def)
  next
    case False
    show ?thesis
    proof (cases "df = []")
      case True
      then show ?thesis using assms dr f False
        by (auto simp: get_stock_data_with_features_def symbol_def[symmetric])
    next
      case nonempty: False
      then have "to_dict_records (feature_engineering df) \<noteq> []"
        using length_feature_engineering[of df] by (auto simp: to_dict_records_def)
      then show ?thesis using assms dr f False nonempty
        by (auto simp: get_stock_data_with_features_def symbol_def[symmetric] Let_def)
    qed
  qed
qed

lemma empty_symbol:
  assumes "normalize_stock_symbol stock_code = []"
  shows "get_stock_data_with_features now provider stock_code interval =
     (case calc_date_range now interval of
        Inl e \<Rightarrow> ([], Inl e)
      | Inr dr \<Rightarrow>
          ([], Inr \<lparr>success = False,
                    message = ''Error: stock_code cannot be empty.'',
                    meta = \<lparr>meta_stock_code = stock_code, meta_symbol = [],
                            meta_start_date = start_date dr, meta_end_date = end_date dr,
                            meta_interval = normalized_interval dr, meta_rows = 0\<rparr>,
                    data = PList []\<rparr>))"
  using assms by (simp add: get_stock_data_with_features_def split: sum.splits)

lemma normalize_space_only: "list_all is_space s \<Longrightarrow> normalize_stock_symbol (Some s) = []"
proof -
  assume a: "list_all is_space s"
  then have "CHR ''.'' \<notin> set s" using dot_not_space by (auto simp: list_all_iff)
  then have "split_head CHR ''.'' s = s" by (rule split_head_id)
  moreover have "lstrip s = []" using a by (simp add: lstrip_def list_all_iff)
  ultimately show ?thesis by (simp add: normalize_split_strip strip_def rstrip_Nil)
qed

lemma normalize_leading_dot: "normalize_stock_symbol (Some (CHR ''.'' # s)) = []"
  by (simp add: normalize_split_strip split_head_def strip_def lstrip_def rstrip_Nil)

lemma length_canonical_rows:
  "length (canonical_rows df) =
   length (filter (\<lambda>r. to_datetime (r raw_Date) \<noteq> None \<and> \<not> isnan (to_numeric (r raw_Close)))
            (rows df))"
proof -
  define g where "g = (\<lambda>r :: colname \<Rightarrow> raw_cell. map_option (\<lambda>d. (d, r)) (to_datetime (r raw_Date)))"
  define P where "P = (\<lambda>p :: timestamp \<times> (colname \<Rightarrow> raw_cell). \<not> isnan (to_numeric (snd p raw_Close)))"
  have "length (canonical_rows df) = length (filter P (sort_key fst (List.map_filter g (rows df))))"
    unfolding canonical_rows_def Let_def g_def P_def
    by (simp add: filter_map comp_def case_prod_unfold)
  also have "\<dots> = length (filter P (List.map_filter g (rows df)))"
  proof -
    have "mset (filter P (sort_key fst (List.map_filter g (rows df)))) =
          mset (filter P (List.map_filter g (rows df)))"
      by simp
    then show ?thesis by (metis size_mset)
  qed
  also have "\<dots> = length (filter (\<lambda>r. to_datetime (r raw_Date) \<noteq> None \<and> \<not> isnan (to_numeric (r raw_Close))) (rows df))"
  proof -
    have "length (filter P (List.map_filter g rs)) =
          length (filter (\<lambda>r. to_datetime (r raw_Date) \<noteq> None \<and> \<not> isnan (to_numeric (r raw_Close))) rs)"
      for rs
      by (induction rs) (auto simp: List.map_filter_simps g_def P_def split: option.splits)
    then show ?thesis .
  qed
  finally show ?thesis .
qed


lemma records_follow_rows:
  assumes "sanitize_for_json (PList (to_dict_records df)) = PList rs"
  shows "length rs = length df"
    and "i < length df \<Longrightarrow>
           \<exists>vs. rs ! i = PDict vs \<and>
                map fst vs = [''Date'', ''Open'', ''High'', ''Low'', ''Close'', ''Volume'',
                              ''MA_10'', ''MA_50'', ''Daily_Return'', ''Volatility_20d'', ''RSI'']
                \<and> vs ! 0 = (''Date'', PTimestamp (Date (df ! i)))"
  using assms by (auto simp: to_dict_records_def)






lemma canonical_rows_empty: "rows df = [] \<Longrightarrow> canonical_rows df = []"
  by (simp add: canonical_rows_def List.map_filter_simps)




lemma range_9999999d: "calc_date_range 739923 (IStr ''9999999d'') = Inl OverflowError"
  by code_simp

section \<open>The claims on the sanitizer, the fetcher and the orchestrator\<close>

text \<open>
  C6, as amended. The sanitizer replaces every non-finite number (\<open>NaN\<close>, plus and minus
  infinity) that is a Python float or a numpy \<open>float16\<close>, \<open>float32\<close> or \<open>float64\<close>
  scalar by \<open>None\<close>, through the values of dicts and the elements of lists: its result
  holds no such number at any depth of its lists and dict values. It leaves every other value in place, a tuple with
  all its contents included (a value with no non-finite float and no numpy scalar to
  unbox comes back unchanged; a finite numpy scalar comes back unboxed), and it is
  idempotent on every value.
\<close>

theorem sanitize_for_json_finite_idempotent:
  "json_finite (sanitize_for_json x)
   \<and> sanitize_for_json (sanitize_for_json x) = sanitize_for_json x
   \<and> (json_finite x \<and> native x \<longrightarrow> sanitize_for_json x = x)
   \<and> sanitize_for_json (PFloat NaN) = PNone
   \<and> sanitize_for_json (PFloat PosInf) = PNone
   \<and> sanitize_for_json (PFloat NegInf) = PNone
   \<and> sanitize_for_json (NpFloating NaN) = PNone
   \<and> sanitize_for_json (NpFloating PosInf) = PNone
   \<and> sanitize_for_json (NpFloating NegInf) = PNone
   \<and> sanitize_for_json (PFloat (Fin a)) = PFloat (Fin a)
   \<and> sanitize_for_json (NpFloating (Fin a)) = PFloat (Fin a)
   \<and> sanitize_for_json (NpInteger n) = PInt n
   \<and> sanitize_for_json (PList vs) = PList (map sanitize_for_json vs)
   \<and> sanitize_for_json (PDict kvs) = PDict (map (\<lambda>(k, v). (k, sanitize_for_json v)) kvs)
   \<and> sanitize_for_json (PTuple vs) = PTuple vs"
  using sanitize_json_finite[of x] sanitize_idem[of x] sanitize_id[of x]
  by (simp add: sanitize_float_def)

theorem sanitize_for_json_finite_idempotent_witness:
  "json_finite (PList [PDict [(''Close'', PFloat (Fin 10)), (''Date'', PTimestamp 738887)], PNone])
   \<and> native (PList [PDict [(''Close'', PFloat (Fin 10)), (''Date'', PTimestamp 738887)], PNone])
   \<and> sanitize_for_json
         (PList [PDict [(''Close'', PFloat (Fin 10)), (''Date'', PTimestamp 738887)], PNone]) =
       PList [PDict [(''Close'', PFloat (Fin 10)), (''Date'', PTimestamp 738887)], PNone]
   \<and> sanitize_for_json (PList [PDict [(''RSI'', PFloat NaN)], NpFloating PosInf]) =
       PList [PDict [(''RSI'', PNone)], PNone]"
  using sanitize_for_json_finite_idempotent
    [of "PList [PDict [(''Close'', PFloat (Fin 10)), (''Date'', PTimestamp 738887)], PNone]"]
  by (simp add: sanitize_float_def)

text \<open>
  The claim as stated fails on a tuple, an ordered sequence the sanitizer does not enter:
  a \<open>NaN\<close> and an infinity inside a tuple stay, also when the tuple is inside a list.
\<close>

theorem sanitize_for_json_keeps_tuple_contents:
  "sanitize_for_json (PTuple [PFloat NaN, PFloat PosInf]) = PTuple [PFloat NaN, PFloat PosInf]
   \<and> sanitize_for_json (PList [PTuple [PFloat NaN]]) = PList [PTuple [PFloat NaN]]"
  by simp

text \<open>
  An \<open>np.longdouble\<close> is an \<open>np.floating\<close> whose \<open>item()\<close> is no Python float, so
  the sanitizer returns it as it is, non-finite or not.
\<close>

lemma sanitize_for_json_longdouble: "sanitize_for_json (NpLongdouble x) = NpLongdouble x"
  by simp




text \<open>
  C1. Whenever \<open>get_stock_data_with_features\<close> returns an envelope, \<open>meta.rows\<close> is
  the length of \<open>data\<close>, \<open>data\<close> is a list, and \<open>success\<close> is true exactly when
  \<open>data\<close> is not empty: a failure envelope has \<open>success = false\<close> and empty data, and
  there is no envelope with \<open>success = true\<close> and empty data or with \<open>success = false\<close>
  and data.
\<close>

theorem envelope_rows_match_and_none_partial:
  assumes "get_stock_data_with_features now provider stock_code interval = (calls, Inr env)"
  shows "meta_rows (meta env) = py_len (data env)
       \<and> (\<exists>rs. data env = PList rs)
       \<and> success env = (data env \<noteq> PList [])
       \<and> (\<not> success env \<longrightarrow> data env = PList [] \<and> meta_rows (meta env) = 0)
       \<and> (success env \<longrightarrow> 0 < meta_rows (meta env))"
proof -
  from envelope_shape[OF assms] obtain rs where
    "meta_rows (meta env) = py_len (data env)" and "data env = PList rs"
    and "success env = (data env \<noteq> PList [])"
    by blast
  then show ?thesis by auto
qed

theorem envelope_rows_match_and_none_partial_witness:
  "get_stock_data_with_features 739923 (example_provider [one_bar]) (Some ''600519.SH'')
     (IStr ''365d'') = ([(''600519'', 739558, 739923)], Inr one_bar_envelope)
   \<and> success one_bar_envelope
   \<and> meta_rows (meta one_bar_envelope) = py_len (data one_bar_envelope)
   \<and> data one_bar_envelope \<noteq> PList []
   \<and> 0 < meta_rows (meta one_bar_envelope)"
proof -
  have s: "success one_bar_envelope" by (simp add: one_bar_envelope_def)
  from envelope_rows_match_and_none_partial[OF call_one_bar] s call_one_bar
  show ?thesis by simp
qed

text \<open>
  C2. What holds of it: for every \<open>stock_code\<close> whose normalized symbol is empty
  (absent, the empty string, whitespace only, or starting with \<open>.\<close>) the provider is
  never called, and once the interval has resolved to a date range the call returns the
  failure envelope with \<open>success = false\<close>, the message
  \<open>Error: stock_code cannot be empty.\<close>, \<open>meta.rows = 0\<close> and empty data.
\<close>

lemma empty_symbol_no_provider_call:
  assumes "normalize_stock_symbol stock_code = []"
  shows "get_stock_data_with_features now provider stock_code interval =
           (case calc_date_range now interval of
              Inl e \<Rightarrow> ([], Inl e)
            | Inr dr \<Rightarrow>
                ([], Inr \<lparr>success = False,
                          message = ''Error: stock_code cannot be empty.'',
                          meta = \<lparr>meta_stock_code = stock_code, meta_symbol = [],
                                  meta_start_date = start_date dr,
                                  meta_end_date = end_date dr,
                                  meta_interval = normalized_interval dr, meta_rows = 0\<rparr>,
                          data = PList []\<rparr>))
       \<and> fst (get_stock_data_with_features now provider stock_code interval) = []
       \<and> normalize_stock_symbol None = []
       \<and> normalize_stock_symbol (Some []) = []
       \<and> (list_all is_space s \<longrightarrow> normalize_stock_symbol (Some s) = [])
       \<and> normalize_stock_symbol (Some (CHR ''.'' # s)) = []"
proof -
  have "fst (get_stock_data_with_features now provider stock_code interval) = []"
    unfolding empty_symbol[OF assms] by (simp split: sum.splits)
  moreover have "normalize_stock_symbol (Some []) = []"
    by (rule normalize_space_only) simp
  ultimately show ?thesis
    using empty_symbol[OF assms, of now provider interval]
    by (simp add: normalize_None normalize_space_only normalize_leading_dot)
qed

text \<open>
  C2. Where it fails: \<open>get_stock_data_with_features\<close> computes the date range (line
  241) before it looks at the symbol (line 244), and \<open>_calc_date_range\<close> catches
  nothing. With an empty \<open>stock_code\<close> and the interval \<open>"9999999d"\<close>, at the current
  date 2026-11-03 (ordinal 739923), the call raises \<open>OverflowError\<close> and returns no
  envelope.
\<close>

theorem empty_symbol_overflowing_interval_raises:
  "normalize_stock_symbol (Some []) = []
   \<and> get_stock_data_with_features 739923 (example_provider [one_bar]) (Some [])
       (IStr ''9999999d'') = ([], Inl OverflowError)"
  by (simp add: get_stock_data_with_features_def range_9999999d normalize_space_only)

text \<open>
  C9. Where it fails: the records come from \<open>df.reset_index().to_dict(orient="records")\<close>
  and the sanitizer, and neither renders the date, so the \<open>Date\<close> of every record is a
  pandas \<open>Timestamp\<close> and not a string. The call below returns one bar. (One record per
  row, in the order of the rows, with the eleven keys in the stated order:
  \<open>records_follow_rows\<close>.)
\<close>

theorem record_date_is_a_timestamp:
  "snd (get_stock_data_with_features 739923 (example_provider [one_bar]) (Some ''600519.SH'')
          (IStr ''365d'')) = Inr one_bar_envelope
   \<and> data one_bar_envelope =
       PList
        [PDict [(''Date'', PTimestamp 738887), (''Open'', PFloat (Fin 10)),
                (''High'', PFloat (Fin 11)), (''Low'', PFloat (Fin 9)),
                (''Close'', PFloat (Fin (21 / 2))), (''Volume'', PFloat (Fin 1000)),
                (''MA_10'', PFloat (Fin (21 / 2))), (''MA_50'', PFloat (Fin (21 / 2))),
                (''Daily_Return'', PNone), (''Volatility_20d'', PNone),
                (''RSI'', PNone)]]"
  by (simp add: call_one_bar one_bar_envelope_def)

end
